theory Spec2Isabelle
  imports Main "HOL-Library.Word"
begin

unbundle bit_operations_syntax

section \<open>Swizzled pointers and buffer-pool keys (bf\_tree.h)\<close>

text \<open>
  \<^verbatim>\<open>shpid_t\<close> is the 32-bit page id stored in a child slot.  The volume id type
  \<^verbatim>\<open>vid_t\<close> is declared in \<^verbatim>\<open>vid_t.h\<close>, which is not part of the sources at hand;
  it is taken as an unsigned word of some width \<open>'v\<close>, zero-extended by the cast
  \<^verbatim>\<open>(uint64_t) vid\<close>.
\<close>

type_synonym shpid_t = "32 word"

definition SWIZZLED_PID_BIT :: "32 word" where
  "SWIZZLED_PID_BIT = 0x80000000"

definition is_swizzled_pointer :: "shpid_t \<Rightarrow> bool" where
  "is_swizzled_pointer shpid \<longleftrightarrow> (shpid AND SWIZZLED_PID_BIT) \<noteq> 0"

definition bf_key :: "'v::len word \<Rightarrow> shpid_t \<Rightarrow> 64 word" where
  "bf_key vid shpid = push_bit 32 (ucast vid) + ucast shpid"


section \<open>Consolidation array status arithmetic (log\_carray.h)\<close>

text \<open>
  \<^verbatim>\<open>carray_status_t\<close> is \<^verbatim>\<open>int64_t\<close>: a 64-bit word read in two's complement
  (\<^const>\<open>sint\<close>); \<open>+\<close> on it wraps around.  The log size is an \<^verbatim>\<open>int32_t\<close>,
  sign-extended (\<^const>\<open>scast\<close>) when it is added to the status.  A failing
  \<^verbatim>\<open>w_assert1\<close> aborts the program: the functions return \<^const>\<open>None\<close> there.
\<close>

type_synonym carray_status_t = "64 word"

definition SLOT_AVAILABLE :: carray_status_t where
  "SLOT_AVAILABLE = 0"

definition SLOT_UNUSED :: carray_status_t where
  "SLOT_UNUSED = - 1"

definition SLOT_PENDING :: carray_status_t where
  "SLOT_PENDING = - 2"

definition SLOT_FINISHED :: carray_status_t where
  "SLOT_FINISHED = - 4"

definition join_carray_status :: "carray_status_t \<Rightarrow> 32 word \<Rightarrow> carray_status_t option" where
  "join_carray_status current_status log_size =
     (if \<not> 0 \<le> sint log_size then None
      else if \<not> 0 \<le> sint current_status then None
      else let THREAD_INCREMENT = push_bit 32 1
           in Some (current_status + scast log_size + THREAD_INCREMENT))"

definition extract_carray_log_size :: "carray_status_t \<Rightarrow> 32 word option" where
  "extract_carray_log_size current_status =
     (if \<not> 0 \<le> sint current_status then None
      else let THREAD_MASK = 0xFFFF
           in Some (ucast (current_status AND THREAD_MASK)))"


section \<open>Fixable page handles (fixable\_page\_h.cpp)\<close>

text \<open>
  A handle (\<^verbatim>\<open>fixable_page_h\<close>) holds the page pointer \<^verbatim>\<open>_pp\<close> (\<^const>\<open>None\<close> is
  \<^verbatim>\<open>NULL\<close>), the latch mode \<^verbatim>\<open>_mode\<close> and the Q ticket \<^verbatim>\<open>_Q_ticket\<close>.  Return codes
  are \<^verbatim>\<open>w_rc_t\<close> values: \<open>RCOK\<close> or \<open>RC e\<close>.  A failing \<^verbatim>\<open>w_assert1\<close> and a
  dereference of a \<^verbatim>\<open>NULL\<close> page pointer abort the program: the functions return
  \<^const>\<open>None\<close> there.
\<close>

datatype latch_mode_t = LATCH_NL | LATCH_Q | LATCH_SH | LATCH_EX

datatype w_error_codes =
    eLATCHQFAIL
  | ePARENTLATCHQFAIL
  | eBF_DIRECTFIX_SWIZZLED_PTR
  | eOUTOFLOGSPACE
  | eOTHER nat

datatype w_rc_t = RCOK | RC w_error_codes

type_synonym generic_page_ptr = nat

type_synonym q_ticket_t = nat

record fixable_page_h =
  pp :: "generic_page_ptr option"
  mode :: latch_mode_t
  Q_ticket :: q_ticket_t

text \<open>The two fields of a control block that the handle code reads.\<close>

record 'vol bf_tree_cb_t =
  pid_vol :: 'vol
  pid_shpid :: shpid_t

text \<open>The one field of a page image that the handle code reads and writes.\<close>

record 'flags generic_page =
  page_flags :: 'flags

text \<open>
  What the handle code calls but the sources at hand do not contain, taken as
  parameters: the inline accessors of the handle (\<^verbatim>\<open>fixable_page_h.h\<close>), the flag
  constant \<^verbatim>\<open>t_to_be_deleted\<close> (\<^verbatim>\<open>generic_page.h\<close>), the static \<^verbatim>\<open>force_Q_fixing\<close>, the
  buffer pool \<^verbatim>\<open>smlevel_0::bf\<close> acting on its own state \<open>'bf\<close>
  (\<^verbatim>\<open>bf_tree_inline.h\<close>, \<^verbatim>\<open>bf_tree.cpp\<close>) and the log function
  \<^verbatim>\<open>log_page_set_to_be_deleted\<close>.  A \<^verbatim>\<open>generic_page*&\<close> parameter is passed in and
  handed back with the result, also when the call fails.  \<open>bf_latch_version\<close> is the
  version word of a frame's latch, which a Q ticket is compared with.
\<close>

record ('bf, 'vol, 'flags) sm_env =
  force_Q_fixing :: int
  latch_mode :: "fixable_page_h \<Rightarrow> latch_mode_t"
  is_fixed :: "fixable_page_h \<Rightarrow> bool"
  is_latched :: "fixable_page_h \<Rightarrow> bool"
  t_to_be_deleted :: 'flags
  bf_unfix :: "generic_page_ptr \<Rightarrow> 'bf \<Rightarrow> 'bf"
  bf_fix_nonroot :: "generic_page_ptr option \<Rightarrow> generic_page_ptr option \<Rightarrow> 'vol \<Rightarrow> shpid_t
    \<Rightarrow> latch_mode_t \<Rightarrow> bool \<Rightarrow> bool \<Rightarrow> 'bf \<Rightarrow> w_rc_t \<times> generic_page_ptr option \<times> 'bf"
  bf_fix_with_Q_nonroot :: "generic_page_ptr option \<Rightarrow> 'vol \<Rightarrow> shpid_t \<Rightarrow> q_ticket_t \<Rightarrow> 'bf
    \<Rightarrow> w_rc_t \<times> generic_page_ptr option \<times> q_ticket_t \<times> 'bf"
  bf_fix_nonswizzled :: "generic_page_ptr option \<Rightarrow> generic_page_ptr option \<Rightarrow> 'vol \<Rightarrow> shpid_t
    \<Rightarrow> latch_mode_t \<Rightarrow> bool \<Rightarrow> bool \<Rightarrow> 'bf \<Rightarrow> w_rc_t \<times> generic_page_ptr option \<times> 'bf"
  bf_get_cb :: "'bf \<Rightarrow> generic_page_ptr option \<Rightarrow> 'vol bf_tree_cb_t"
  bf_set_dirty :: "generic_page_ptr \<Rightarrow> 'bf \<Rightarrow> 'bf"
  bf_latch_version :: "'bf \<Rightarrow> generic_page_ptr \<Rightarrow> q_ticket_t"
  log_page_set_to_be_deleted :: "fixable_page_h \<Rightarrow> 'bf \<Rightarrow> w_rc_t \<times> 'bf"

definition unfix ::
  "('bf, 'vol, 'flags) sm_env \<Rightarrow> fixable_page_h \<Rightarrow> 'bf \<Rightarrow> (fixable_page_h \<times> 'bf) option" where
  "unfix env h bf =
     (if mode h \<noteq> LATCH_NL then
        (case pp h of
           None \<Rightarrow> None
         | Some p \<Rightarrow>
             Some (h\<lparr>mode := LATCH_NL, pp := None\<rparr>,
                   if mode h \<noteq> LATCH_Q then bf_unfix env p bf else bf))
      else Some (h, bf))"

definition change_possible_after_fix ::
  "('bf, 'vol, 'flags) sm_env \<Rightarrow> fixable_page_h \<Rightarrow> bool option" where
  "change_possible_after_fix env h = (if \<not> is_fixed env h then None else Some False)"

text \<open>Lines 50 to 59 of \<^verbatim>\<open>fix_nonroot\<close>: set the mode, then check crabbing from Q.\<close>

definition fix_nonroot_crabbing ::
  "('bf, 'vol, 'flags) sm_env \<Rightarrow> fixable_page_h \<Rightarrow> fixable_page_h \<Rightarrow> latch_mode_t \<Rightarrow> 'bf
     \<Rightarrow> (w_rc_t \<times> fixable_page_h \<times> 'bf) option" where
  "fix_nonroot_crabbing env h parent m bf =
     (let h' = h\<lparr>mode := m\<rparr> in
      if latch_mode env parent = LATCH_Q then
        (case change_possible_after_fix env parent of
           None \<Rightarrow> None
         | Some changed \<Rightarrow>
             if changed then
               (case unfix env h' bf of
                  None \<Rightarrow> None
                | Some (h'', bf') \<Rightarrow> Some (RC ePARENTLATCHQFAIL, h'', bf'))
             else Some (RCOK, h', bf))
      else Some (RCOK, h', bf))"

text \<open>Line 28 of \<^verbatim>\<open>fix_nonroot\<close>: a forced Q fix replaces a requested \<open>LATCH_SH\<close>.\<close>

definition forced_mode :: "('bf, 'vol, 'flags) sm_env \<Rightarrow> latch_mode_t \<Rightarrow> latch_mode_t" where
  "forced_mode env mode0 =
     (if force_Q_fixing env > 1 \<and> mode0 = LATCH_SH then LATCH_Q else mode0)"

definition fix_nonroot ::
  "('bf, 'vol, 'flags) sm_env \<Rightarrow> fixable_page_h \<Rightarrow> fixable_page_h \<Rightarrow> 'vol \<Rightarrow> shpid_t
     \<Rightarrow> latch_mode_t \<Rightarrow> bool \<Rightarrow> bool \<Rightarrow> 'bf \<Rightarrow> (w_rc_t \<times> fixable_page_h \<times> 'bf) option" where
  "fix_nonroot env h parent vol shpid mode0 conditional virgin_page bf =
     (let m = forced_mode env mode0 in
      if shpid = 0 then None
      else case unfix env h bf of
        None \<Rightarrow> None
      | Some (h1, bf1) \<Rightarrow>
          if m = LATCH_Q \<or> latch_mode env parent = LATCH_Q then
            if virgin_page \<or> \<not> is_swizzled_pointer shpid then Some (RC eLATCHQFAIL, h1, bf1)
            else
              (case bf_fix_with_Q_nonroot env (pp h1) vol shpid (Q_ticket h1) bf1 of
                 (rc, page, ticket, bf2) \<Rightarrow>
                   let h2 = h1\<lparr>pp := page, Q_ticket := ticket\<rparr> in
                   if rc \<noteq> RCOK then Some (rc, h2, bf2)
                   else if False then Some (RC eLATCHQFAIL, h2\<lparr>pp := None\<rparr>, bf2)
                   else if m \<noteq> LATCH_Q then Some (RC ePARENTLATCHQFAIL, h2\<lparr>pp := None\<rparr>, bf2)
                   else fix_nonroot_crabbing env h2 parent m bf2)
          else
            (case bf_fix_nonroot env (pp h1) (pp parent) vol shpid m conditional virgin_page bf1 of
               (rc, page, bf2) \<Rightarrow>
                 let h2 = h1\<lparr>pp := page\<rparr> in
                 if rc \<noteq> RCOK then Some (rc, h2, bf2)
                 else if pid_vol (bf_get_cb env bf2 (pp h2)) \<noteq> vol then None
                 else if \<not> (is_swizzled_pointer shpid
                            \<or> pid_shpid (bf_get_cb env bf2 (pp h2)) = shpid) then None
                 else fix_nonroot_crabbing env h2 parent m bf2))"

text \<open>
  Modelled from the spec: \<^verbatim>\<open>bf_tree_m::fix_direct\<close>, declared in \<^verbatim>\<open>bf_tree.h\<close> with its
  body in a file that is not among the sources.  The spec has it reject any \<open>shpid\<close>
  whose swizzle bit is set with a specific error (\<^verbatim>\<open>eBF_DIRECTFIX_SWIZZLED_PTR\<close> in the
  declaration's comment) and otherwise fix the page without a parent, which is the
  declared \<^verbatim>\<open>_fix_nonswizzled\<close> with a \<^verbatim>\<open>NULL\<close> parent.
\<close>

definition bf_tree_m_fix_direct ::
  "('bf, 'vol, 'flags) sm_env \<Rightarrow> generic_page_ptr option \<Rightarrow> 'vol \<Rightarrow> shpid_t \<Rightarrow> latch_mode_t
     \<Rightarrow> bool \<Rightarrow> bool \<Rightarrow> 'bf \<Rightarrow> w_rc_t \<times> generic_page_ptr option \<times> 'bf" where
  "bf_tree_m_fix_direct env page vol shpid m conditional virgin_page bf =
     (if is_swizzled_pointer shpid then (RC eBF_DIRECTFIX_SWIZZLED_PTR, page, bf)
      else bf_fix_nonswizzled env None page vol shpid m conditional virgin_page bf)"

definition fix_direct ::
  "('bf, 'vol, 'flags) sm_env \<Rightarrow> fixable_page_h \<Rightarrow> 'vol \<Rightarrow> shpid_t \<Rightarrow> latch_mode_t
     \<Rightarrow> bool \<Rightarrow> bool \<Rightarrow> 'bf \<Rightarrow> (w_rc_t \<times> fixable_page_h \<times> 'bf) option" where
  "fix_direct env h vol shpid m conditional virgin_page bf =
     (if shpid = 0 then None
      else case unfix env h bf of
        None \<Rightarrow> None
      | Some (h1, bf1) \<Rightarrow>
          if m = LATCH_Q then Some (RC eLATCHQFAIL, h1, bf1)
          else
            (case bf_tree_m_fix_direct env (pp h1) vol shpid m conditional virgin_page bf1 of
               (rc, page, bf2) \<Rightarrow>
                 let h2 = h1\<lparr>pp := page\<rparr> in
                 if rc \<noteq> RCOK then Some (rc, h2, bf2)
                 else
                   let h3 = h2\<lparr>mode := m\<rparr> in
                   if pid_vol (bf_get_cb env bf2 (pp h3)) \<noteq> vol then None
                   else if pid_shpid (bf_get_cb env bf2 (pp h3)) \<noteq> shpid then None
                   else Some (RCOK, h3, bf2)))"

text \<open>
  Page images live in memory addressed by page pointers.  The buffer pool and the log
  are taken not to write \<^verbatim>\<open>page_flags\<close>.
\<close>

type_synonym 'flags page_memory = "generic_page_ptr \<Rightarrow> 'flags generic_page"

definition set_dirty ::
  "('bf, 'vol, 'flags) sm_env \<Rightarrow> fixable_page_h \<Rightarrow> 'bf \<Rightarrow> 'bf option" where
  "set_dirty env h bf =
     (case pp h of
        None \<Rightarrow> None
      | Some p \<Rightarrow>
          if mode h = LATCH_Q then None
          else if mode h \<noteq> LATCH_NL then Some (bf_set_dirty env p bf)
          else Some bf)"

definition set_to_be_deleted ::
  "('bf, 'vol, 'f::len word) sm_env \<Rightarrow> bool \<Rightarrow> fixable_page_h \<Rightarrow> 'f word page_memory \<Rightarrow> 'bf
     \<Rightarrow> (w_rc_t \<times> 'f word page_memory \<times> 'bf) option" where
  "set_to_be_deleted env log_it h mem bf =
     (if \<not> is_latched env h then None
      else case pp h of
        None \<Rightarrow> None
      | Some p \<Rightarrow>
          if page_flags (mem p) AND t_to_be_deleted env = 0 then
            (case (if log_it then log_page_set_to_be_deleted env h bf else (RCOK, bf)) of
               (rc, bf1) \<Rightarrow>
                 if rc \<noteq> RCOK then Some (rc, mem, bf1)
                 else
                   let mem' = mem(p := (mem p)\<lparr>page_flags :=
                                  page_flags (mem p) XOR t_to_be_deleted env\<rparr>) in
                   (case set_dirty env h bf1 of
                      None \<Rightarrow> None
                    | Some bf2 \<Rightarrow> Some (RCOK, mem', bf2)))
          else Some (RCOK, mem, bf))"

definition unset_to_be_deleted ::
  "('bf, 'vol, 'f::len word) sm_env \<Rightarrow> fixable_page_h \<Rightarrow> 'f word page_memory
     \<Rightarrow> 'f word page_memory option" where
  "unset_to_be_deleted env h mem =
     (if \<not> is_latched env h then None
      else case pp h of
        None \<Rightarrow> None
      | Some p \<Rightarrow>
          if page_flags (mem p) AND t_to_be_deleted env \<noteq> 0 then
            Some (mem(p := (mem p)\<lparr>page_flags :=
                    page_flags (mem p) XOR t_to_be_deleted env\<rparr>))
          else Some mem)"

definition is_to_be_deleted ::
  "('bf, 'vol, 'f::len word) sm_env \<Rightarrow> fixable_page_h \<Rightarrow> 'f word page_memory \<Rightarrow> bool option" where
  "is_to_be_deleted env h mem =
     (if mode h = LATCH_Q then None
      else case pp h of
        None \<Rightarrow> None
      | Some p \<Rightarrow> Some (page_flags (mem p) AND t_to_be_deleted env \<noteq> 0))"

text \<open>
  Modelled from the spec: the validity test of a Q ticket, which belongs to the latch
  (\<^verbatim>\<open>latch.h\<close>, not among the sources).  The spec has the ticket hold the latch's
  version word at acquire time, and validation compare it with the current version; an
  exclusive acquisition in between invalidates it.
\<close>

definition q_ticket_valid ::
  "('bf, 'vol, 'flags) sm_env \<Rightarrow> 'bf \<Rightarrow> generic_page_ptr option \<Rightarrow> q_ticket_t \<Rightarrow> bool" where
  "q_ticket_valid env bf page ticket =
     (case page of None \<Rightarrow> False | Some p \<Rightarrow> bf_latch_version env bf p = ticket)"


section \<open>A small buffer pool to run the handle code on\<close>

text \<open>
  Concrete instances of the parameters, used to evaluate the handle code on explicit
  inputs.  The pool keeps the frames latched through it, the dirty frames, the version
  word of each frame's latch and the number of log records written.  Every fix succeeds;
  a swizzled pointer is resolved to the frame index in its low bits.  \<open>writers\<close> lists
  the frames on which another thread takes the exclusive latch while a fix is under way:
  that bumps the version words of their latches.
\<close>

record demo_pool =
  latches :: "generic_page_ptr list"
  dirty_frames :: "generic_page_ptr list"
  versions :: "generic_page_ptr \<Rightarrow> nat"
  log_records :: nat

definition writer_step :: "generic_page_ptr list \<Rightarrow> demo_pool \<Rightarrow> demo_pool" where
  "writer_step writers bf =
     bf\<lparr>versions := (\<lambda>p. if p \<in> set writers then Suc (versions bf p) else versions bf p)\<rparr>"

definition frame_of :: "shpid_t \<Rightarrow> generic_page_ptr" where
  "frame_of shpid = unat (shpid AND NOT SWIZZLED_PID_BIT)"

definition demo_env :: "generic_page_ptr list \<Rightarrow> (demo_pool, 16 word, 16 word) sm_env" where
  "demo_env writers =
     \<lparr> force_Q_fixing = 0,
       latch_mode = mode,
       is_fixed = (\<lambda>h. pp h \<noteq> None),
       is_latched = (\<lambda>h. mode h = LATCH_SH \<or> mode h = LATCH_EX),
       t_to_be_deleted = 1,
       bf_unfix = (\<lambda>p bf. bf\<lparr>latches := remove1 p (latches bf)\<rparr>),
       bf_fix_nonroot = (\<lambda>page parent vol shpid m conditional virgin_page bf.
         (RCOK, Some (frame_of shpid),
          writer_step writers (bf\<lparr>latches := frame_of shpid # latches bf\<rparr>))),
       bf_fix_with_Q_nonroot = (\<lambda>page vol shpid ticket bf.
         (RCOK, Some (frame_of shpid), versions bf (frame_of shpid), writer_step writers bf)),
       bf_fix_nonswizzled = (\<lambda>parent page vol shpid m conditional virgin_page bf.
         (RCOK, Some (frame_of shpid),
          writer_step writers (bf\<lparr>latches := frame_of shpid # latches bf\<rparr>))),
       bf_get_cb = (\<lambda>bf page.
         \<lparr>pid_vol = 1, pid_shpid = (case page of None \<Rightarrow> 0 | Some p \<Rightarrow> of_nat p)\<rparr>),
       bf_set_dirty = (\<lambda>p bf. bf\<lparr>dirty_frames := p # dirty_frames bf\<rparr>),
       bf_latch_version = versions,
       log_page_set_to_be_deleted = (\<lambda>h bf. (RCOK, bf\<lparr>log_records := Suc (log_records bf)\<rparr>)) \<rparr>"

definition demo_pool0 :: demo_pool where
  "demo_pool0 = \<lparr>latches = [], dirty_frames = [], versions = (\<lambda>p. 0), log_records = 0\<rparr>"

definition unfixed_handle :: fixable_page_h where
  "unfixed_handle = \<lparr>pp = None, mode = LATCH_NL, Q_ticket = 0\<rparr>"

definition handle_on :: "generic_page_ptr \<Rightarrow> latch_mode_t \<Rightarrow> fixable_page_h" where
  "handle_on p m = \<lparr>pp = Some p, mode = m, Q_ticket = 0\<rparr>"

definition demo_memory :: "16 word \<Rightarrow> 16 word page_memory" where
  "demo_memory flags = (\<lambda>p. \<lparr>page_flags = flags\<rparr>)"


section \<open>Facts about keys and swizzled pointers\<close>

lemma SWIZZLED_PID_BIT_push_bit: "SWIZZLED_PID_BIT = push_bit 31 1"
  by (simp add: SWIZZLED_PID_BIT_def)

lemma bf_key_or: "bf_key vid shpid = push_bit 32 (ucast vid) OR ucast shpid"
  unfolding bf_key_def
  by (rule disjunctive_add_eq_or)
     (auto simp: bit_eq_iff bit_simps dest: bit_imp_le_length)

lemma bf_key_low: "ucast (bf_key vid shpid) = shpid"
  by (auto simp: bf_key_or bit_eq_iff bit_simps dest: bit_imp_le_length)

lemma bf_key_high:
  fixes vid :: "'v::len word"
  assumes "LENGTH('v) \<le> 32"
  shows "ucast (drop_bit 32 (bf_key vid shpid)) = vid"
  using assms
  by (auto simp: bf_key_or bit_eq_iff bit_simps dest: bit_imp_le_length)

text \<open>
  C8.  For every 32-bit pointer value \<open>x\<close>, \<open>is_swizzled_pointer x\<close> holds if and
  only if bit 31 of \<open>x\<close> (the mask \<open>0x80000000\<close>) is set: the high bit alone
  separates a disk page id from a swizzled frame index.
\<close>

theorem is_swizzled_pointer_bit31:
  "is_swizzled_pointer x \<longleftrightarrow> bit x 31"
  by (simp add: is_swizzled_pointer_def SWIZZLED_PID_BIT_push_bit
      bit_iff_and_push_bit_not_eq_0 del: push_bit_of_1)

text \<open>
  C7.  For every volume id \<open>vid\<close> (of a width of at most 32 bits) and every 32-bit
  page id \<open>shpid\<close>, \<open>bf_key vid shpid\<close> is \<open>(vid << 32) | shpid\<close>, and \<open>bf_key\<close> is
  injective: two keys are equal only if both the volume ids and the page ids are.
\<close>

theorem bf_key_injective:
  fixes vid vid' :: "'v::len word"
  assumes "LENGTH('v) \<le> 32"
  shows "bf_key vid shpid = push_bit 32 (ucast vid) OR ucast shpid \<and>
         (bf_key vid shpid = bf_key vid' shpid' \<longleftrightarrow> vid = vid' \<and> shpid = shpid')"
proof -
  have "vid = vid' \<and> shpid = shpid'" if eq: "bf_key vid shpid = bf_key vid' shpid'"
  proof
    have "ucast (drop_bit 32 (bf_key vid shpid)) = (ucast (drop_bit 32 (bf_key vid' shpid')) :: 'v word)"
      by (simp only: eq)
    then show "vid = vid'"
      by (simp only: bf_key_high [OF assms])
    have "ucast (bf_key vid shpid) = (ucast (bf_key vid' shpid') :: 32 word)"
      by (simp only: eq)
    then show "shpid = shpid'"
      by (simp only: bf_key_low)
  qed
  then show ?thesis
    by (auto simp: bf_key_or)
qed

theorem bf_key_injective_witness:
  "LENGTH(16) \<le> 32 \<and>
   bf_key (7 :: 16 word) 5 = push_bit 32 (ucast (7 :: 16 word)) OR ucast (5 :: 32 word) \<and>
   bf_key (7 :: 16 word) 5 = 0x700000005 \<and>
   bf_key (7 :: 16 word) 5 \<noteq> bf_key (5 :: 16 word) 7"
  using bf_key_injective [of "7 :: 16 word" 5 "5 :: 16 word" 7]
  by (simp add: bf_key_def)


section \<open>Facts about the status arithmetic\<close>

lemma uint_nonneg_sint:
  fixes w :: "'a::len word"
  assumes "0 \<le> sint w"
  shows "uint w = sint w"
proof -
  have "sint w < 2 ^ LENGTH('a)"
    using sint_lt [of w] by (rule less_le_trans) simp
  with assms have "take_bit LENGTH('a) (sint w) = sint w"
    by (simp add: take_bit_int_eq_self_iff)
  then show ?thesis by (simp add: uint_sint)
qed

lemma scast_nonneg:
  fixes sz :: "32 word"
  assumes "0 \<le> sint sz"
  shows "uint (scast sz :: 64 word) = uint sz"
proof -
  have up: "sint (scast sz :: 64 word) = sint sz"
    by (rule sint_up_scast) (simp add: is_up)
  with assms have "0 \<le> sint (scast sz :: 64 word)"
    by simp
  then have "uint (scast sz :: 64 word) = sint (scast sz :: 64 word)"
    by (rule uint_nonneg_sint)
  then show ?thesis
    by (simp only: up uint_nonneg_sint [OF assms])
qed

lemma join_uint:
  fixes cur :: "64 word" and sz :: "32 word"
  assumes "0 \<le> sint cur" "0 \<le> sint sz"
  shows "uint (cur + scast sz + push_bit 32 1) = uint cur + uint sz + 2 ^ 32"
proof -
  have c: "uint cur < 2 ^ 63"
    using sint_lt [of cur] uint_nonneg_sint [OF assms(1)] by simp
  have s: "uint sz < 2 ^ 31"
    using sint_lt [of sz] uint_nonneg_sint [OF assms(2)] by simp
  have "uint (cur + scast sz + push_bit 32 1) = (uint cur + uint sz + 2 ^ 32) mod 2 ^ 64"
    by (simp add: uint_word_ariths scast_nonneg [OF assms(2)] mod_simps)
  also have "\<dots> = uint cur + uint sz + 2 ^ 32"
    using c s by (simp add: mod_pos_pos_trivial)
  finally show ?thesis .
qed

lemma join_sint:
  fixes cur :: "64 word" and sz :: "32 word"
  assumes "0 \<le> sint cur" "0 \<le> sint sz" "sint cur + sint sz + 2 ^ 32 < 2 ^ 63"
  shows "sint (cur + scast sz + push_bit 32 1) = sint cur + sint sz + 2 ^ 32"
proof -
  let ?j = "cur + scast sz + push_bit 32 1 :: 64 word"
  have u: "uint ?j = sint cur + sint sz + 2 ^ 32"
    by (simp only: join_uint [OF assms(1,2)] uint_nonneg_sint [OF assms(1)] uint_nonneg_sint [OF assms(2)])
  have "sint ?j = signed_take_bit 63 (uint ?j)"
    by (simp add: sint_uint)
  also have "\<dots> = uint ?j"
    using assms u by (simp only: signed_take_bit_int_eq_self_iff) simp
  finally show ?thesis using u by simp
qed

lemma join_not_sentinel:
  fixes cur :: "64 word" and sz :: "32 word"
  assumes "0 \<le> sint cur" "0 \<le> sint sz"
  shows "cur + scast sz + push_bit 32 1 \<notin> {SLOT_AVAILABLE, SLOT_UNUSED, SLOT_PENDING, SLOT_FINISHED}"
proof -
  let ?j = "cur + scast sz + push_bit 32 1 :: 64 word"
  have c: "uint cur < 2 ^ 63"
    using sint_lt [of cur] uint_nonneg_sint [OF assms(1)] by simp
  have s: "uint sz < 2 ^ 31"
    using sint_lt [of sz] uint_nonneg_sint [OF assms(2)] by simp
  have c0: "0 \<le> uint cur" and s0: "0 \<le> uint sz"
    by simp_all
  have u: "uint ?j = uint cur + uint sz + 2 ^ 32"
    by (rule join_uint [OF assms])
  have lo: "2 ^ 32 \<le> uint ?j" and hi: "uint ?j < 2 ^ 64 - 4"
    unfolding u using c s c0 s0 by simp_all
  have "uint ?j \<noteq> uint SLOT_AVAILABLE" "uint ?j \<noteq> uint SLOT_UNUSED"
       "uint ?j \<noteq> uint SLOT_PENDING" "uint ?j \<noteq> uint SLOT_FINISHED"
    using lo hi
    by (simp_all add: SLOT_AVAILABLE_def SLOT_UNUSED_def SLOT_PENDING_def SLOT_FINISHED_def
        uint_word_ariths)
  then show ?thesis by auto
qed

lemma div_mod_carry_free:
  fixes a s M :: nat
  assumes "a mod M + s < M"
  shows "(a + s + M) div M = a div M + 1" and "(a + s + M) mod M = a mod M + s"
proof -
  have M: "M \<noteq> 0" using assms by (cases M) simp_all
  have eq: "a + s + M = (a mod M + s) + (a div M + 1) * M"
    by (simp add: algebra_simps)
  have "(a + s + M) div M = ((a mod M + s) + (a div M + 1) * M) div M"
    by (rule arg_cong [OF eq])
  also have "\<dots> = (a div M + 1) + (a mod M + s) div M"
    by (rule div_mult_self1 [OF M])
  also have "\<dots> = a div M + 1"
    using assms by simp
  finally show "(a + s + M) div M = a div M + 1" .
  have "(a + s + M) mod M = ((a mod M + s) + (a div M + 1) * M) mod M"
    by (rule arg_cong [OF eq])
  also have "\<dots> = (a mod M + s) mod M"
    by (rule mod_mult_self1)
  also have "\<dots> = a mod M + s"
    using assms by simp
  finally show "(a + s + M) mod M = a mod M + s" .
qed

lemma join_fields:
  fixes cur :: "64 word" and sz :: "32 word"
  assumes "0 \<le> sint cur" "0 \<le> sint sz"
    and "unat (take_bit 32 cur) + unat sz < 2 ^ 32"
  shows "unat (drop_bit 32 (cur + scast sz + push_bit 32 1)) = unat (drop_bit 32 cur) + 1"
    and "unat (take_bit 32 (cur + scast sz + push_bit 32 1)) = unat (take_bit 32 cur) + unat sz"
proof -
  let ?j = "cur + scast sz + push_bit 32 1 :: 64 word"
  have "int (unat ?j) = int (unat cur + unat sz + 2 ^ 32)"
    using join_uint [OF assms(1,2)] by simp
  then have u: "unat ?j = unat cur + unat sz + 2 ^ 32"
    by (simp only: of_nat_eq_iff)
  have b: "unat cur mod 2 ^ 32 + unat sz < 2 ^ 32"
    using assms(3) by (simp only: unsigned_take_bit_eq) (simp only: take_bit_eq_mod)
  have "unat (drop_bit 32 ?j) = (unat cur + unat sz + 2 ^ 32) div 2 ^ 32"
    by (simp only: unat_drop_bit_eq) (simp only: drop_bit_eq_div u)
  also have "\<dots> = unat cur div 2 ^ 32 + 1"
    by (rule div_mod_carry_free(1) [OF b])
  finally show "unat (drop_bit 32 ?j) = unat (drop_bit 32 cur) + 1"
    by (simp only: unat_drop_bit_eq) (simp only: drop_bit_eq_div)
  have "unat (take_bit 32 ?j) = (unat cur + unat sz + 2 ^ 32) mod 2 ^ 32"
    by (simp only: unsigned_take_bit_eq) (simp only: take_bit_eq_mod u)
  also have "\<dots> = unat cur mod 2 ^ 32 + unat sz"
    by (rule div_mod_carry_free(2) [OF b])
  finally show "unat (take_bit 32 ?j) = unat (take_bit 32 cur) + unat sz"
    by (simp only: unsigned_take_bit_eq) (simp only: take_bit_eq_mod)
qed

lemma extract_carray_log_size_low16:
  assumes "0 \<le> sint current_status"
  shows "extract_carray_log_size current_status = Some (ucast (take_bit 16 current_status))"
proof -
  have "current_status AND 0xFFFF = take_bit 16 current_status"
    by (simp add: take_bit_eq_mask mask_eq_exp_minus_1)
  with assms show ?thesis
    by (simp add: extract_carray_log_size_def)
qed

text \<open>
  C1.  The documentation of \<^verbatim>\<open>carray_status_t\<close> puts the total number of log bytes in
  the low 32 bits of a status, and \<open>extract_carray_log_size\<close> is to return them.  Its
  mask is \<open>0xFFFF\<close>, so it returns the low 16 bits only: for the status of one thread
  holding 70000 bytes, \<open>1 * 2^32 + 70000\<close>, it returns 4464.
\<close>

theorem extract_carray_log_size_truncates:
  "(4295037296 :: carray_status_t) = 1 * 2 ^ 32 + 70000 \<and>
   0 \<le> sint (4295037296 :: carray_status_t) \<and>
   extract_carray_log_size 4295037296 = Some 4464"
  by (simp add: extract_carray_log_size_def)

text \<open>
  C5.  For every current status \<open>\<ge> 0\<close> and log size \<open>\<ge> 0\<close>, \<open>join_carray_status\<close>
  returns \<open>current_status + log_size + 2^32\<close> (an \<^verbatim>\<open>int64_t\<close> sum); provided the byte
  total does not overflow 32 bits, the thread count encoded in the high 32 bits grows
  by exactly one and the log size is added to the total bytes in the low 32 bits.
\<close>

theorem join_carray_status_sum:
  assumes "0 \<le> sint current_status" and "0 \<le> sint log_size"
  shows "join_carray_status current_status log_size
           = Some (current_status + scast log_size + 2 ^ 32) \<and>
         (unat (take_bit 32 current_status) + unat log_size < 2 ^ 32 \<longrightarrow>
            unat (drop_bit 32 (current_status + scast log_size + 2 ^ 32 :: carray_status_t))
              = unat (drop_bit 32 current_status) + 1 \<and>
            unat (take_bit 32 (current_status + scast log_size + 2 ^ 32 :: carray_status_t))
              = unat (take_bit 32 current_status) + unat log_size)"
proof -
  have p: "(2 ^ 32 :: carray_status_t) = push_bit 32 1"
    by simp
  show ?thesis
    unfolding p using assms join_fields [OF assms]
    by (simp add: join_carray_status_def del: push_bit_of_1)
qed

theorem join_carray_status_sum_witness:
  "0 \<le> sint (4294967396 :: carray_status_t) \<and> 0 \<le> sint (28 :: 32 word) \<and>
   join_carray_status 4294967396 28 = Some 8589934720 \<and>
   unat (take_bit 32 (4294967396 :: carray_status_t)) + unat (28 :: 32 word) < 2 ^ 32 \<and>
   unat (drop_bit 32 (8589934720 :: carray_status_t)) = 2 \<and>
   unat (take_bit 32 (8589934720 :: carray_status_t)) = 128"
  using join_carray_status_sum [of 4294967396 28]
  by simp

text \<open>
  C6.  The sentinels are \<open>SLOT_AVAILABLE = 0\<close>, \<open>SLOT_UNUSED = -1\<close>, \<open>SLOT_PENDING = -2\<close>
  and \<open>SLOT_FINISHED = -4\<close>.  As stated for every status \<open>\<ge> 0\<close>, the joined status is
  not always strictly positive: with \<open>2^31 - 1\<close> threads encoded the 64-bit sum wraps to
  the least negative value.
\<close>

theorem join_carray_status_positive_counterexample:
  "0 \<le> sint (0x7FFFFFFF00000000 :: carray_status_t) \<and> 0 \<le> sint (0 :: 32 word) \<and>
   join_carray_status 0x7FFFFFFF00000000 0 = Some 0x8000000000000000 \<and>
   \<not> 0 < sint (0x8000000000000000 :: carray_status_t)"
  by (simp add: join_carray_status_def)

text \<open>
  C6, amended.  With the sentinels as above, for every status \<open>\<ge> 0\<close> and size \<open>\<ge> 0\<close>
  the joined status is never equal to a sentinel value, and it is strictly positive
  whenever \<open>status + size + 2^32\<close> is below \<open>2^63\<close>, that is, fits an \<^verbatim>\<open>int64_t\<close>.
\<close>

theorem join_carray_status_not_sentinel:
  assumes "0 \<le> sint status" and "0 \<le> sint log_size"
  shows "sint SLOT_AVAILABLE = 0 \<and> sint SLOT_UNUSED = - 1 \<and>
         sint SLOT_PENDING = - 2 \<and> sint SLOT_FINISHED = - 4 \<and>
         (\<exists>joined. join_carray_status status log_size = Some joined \<and>
            joined \<notin> {SLOT_AVAILABLE, SLOT_UNUSED, SLOT_PENDING, SLOT_FINISHED} \<and>
            (sint status + sint log_size + 2 ^ 32 < 2 ^ 63 \<longrightarrow> 0 < sint joined))"
proof -
  have sentinels: "sint SLOT_AVAILABLE = 0 \<and> sint SLOT_UNUSED = - 1 \<and>
      sint SLOT_PENDING = - 2 \<and> sint SLOT_FINISHED = - 4"
    by (simp add: SLOT_AVAILABLE_def SLOT_UNUSED_def SLOT_PENDING_def SLOT_FINISHED_def)
  let ?j = "status + scast log_size + push_bit 32 1 :: carray_status_t"
  have ret: "join_carray_status status log_size = Some ?j"
    using assms by (simp add: join_carray_status_def del: push_bit_of_1)
  have pos: "0 < sint ?j" if "sint status + sint log_size + 2 ^ 32 < 2 ^ 63"
    using join_sint [OF assms that] assms by simp
  from sentinels ret join_not_sentinel [OF assms] pos show ?thesis
    by blast
qed

theorem join_carray_status_not_sentinel_witness:
  "0 \<le> sint (4294967396 :: carray_status_t) \<and> 0 \<le> sint (28 :: 32 word) \<and>
   join_carray_status 4294967396 28 = Some 8589934720 \<and>
   (8589934720 :: carray_status_t) \<notin> {SLOT_AVAILABLE, SLOT_UNUSED, SLOT_PENDING, SLOT_FINISHED} \<and>
   sint (4294967396 :: carray_status_t) + sint (28 :: 32 word) + 2 ^ 32 < 2 ^ 63 \<and>
   0 < sint (8589934720 :: carray_status_t)"
  using join_carray_status_not_sentinel [of 4294967396 28]
  by (simp add: join_carray_status_def)


section \<open>Facts about the page handles\<close>

lemma unfix_result:
  assumes "unfix env h bf = Some (h', bf')"
  shows "mode h' = LATCH_NL"
    and "pp h' = (if mode h = LATCH_NL then pp h else None)"
    and "Q_ticket h' = Q_ticket h"
    and "mode h = LATCH_NL \<Longrightarrow> h' = h \<and> bf' = bf"
    and "mode h = LATCH_Q \<Longrightarrow> bf' = bf"
    and "unfix env h' bf' = Some (h', bf')"
  using assms by (auto simp: unfix_def split: if_splits option.splits)

lemma unfix_returns:
  assumes "mode h \<noteq> LATCH_NL \<longrightarrow> pp h \<noteq> None"
  shows "\<exists>h' bf'. unfix env h bf = Some (h', bf')"
  using assms by (auto simp: unfix_def split: option.splits)

text \<open>
  C9, amended.  For a handle that holds a page whenever its mode is not \<open>LATCH_NL\<close>
  (the assertion of \<open>unfix\<close>), \<open>unfix\<close> returns and is idempotent: afterwards the mode
  is \<open>LATCH_NL\<close>, and a second call changes nothing.  The page pointer is \<open>NULL\<close>
  afterwards when the mode was not \<open>LATCH_NL\<close>; a handle whose mode is \<open>LATCH_NL\<close> is
  left as it is, page pointer included.  For a handle fixed in Q mode the buffer pool is
  not called, so no latch is released: only the mode and the page pointer are cleared.
\<close>

theorem unfix_idempotent:
  assumes "mode h \<noteq> LATCH_NL \<longrightarrow> pp h \<noteq> None"
  shows "\<exists>h' bf'. unfix env h bf = Some (h', bf') \<and>
           mode h' = LATCH_NL \<and>
           pp h' = (if mode h = LATCH_NL then pp h else None) \<and>
           Q_ticket h' = Q_ticket h \<and>
           unfix env h' bf' = Some (h', bf') \<and>
           (mode h = LATCH_NL \<longrightarrow> h' = h \<and> bf' = bf) \<and>
           (mode h = LATCH_Q \<longrightarrow> bf' = bf)"
proof -
  from unfix_returns [OF assms, of env bf] obtain h' bf' where u: "unfix env h bf = Some (h', bf')"
    by blast
  from unfix_result [OF u] u show ?thesis
    by blast
qed

theorem unfix_idempotent_witness:
  "mode (handle_on 3 LATCH_Q) \<noteq> LATCH_NL \<and> pp (handle_on 3 LATCH_Q) \<noteq> None \<and>
   unfix (demo_env []) (handle_on 3 LATCH_Q) demo_pool0 = Some (unfixed_handle, demo_pool0) \<and>
   mode unfixed_handle = LATCH_NL \<and> pp unfixed_handle = None \<and>
   unfix (demo_env []) unfixed_handle demo_pool0 = Some (unfixed_handle, demo_pool0)"
  using unfix_idempotent [of "handle_on 3 LATCH_Q" "demo_env []" demo_pool0]
  by (simp add: unfix_def handle_on_def unfixed_handle_def)

text \<open>
  C9.  As stated for any call, the claim fails on a handle whose mode is \<open>LATCH_NL\<close>
  while it holds a page pointer, the state in which \<open>set_dirty\<close> finds a page without
  a latch: \<open>unfix\<close> does nothing there and the page pointer stays.
\<close>

theorem unfix_keeps_page_counterexample:
  "unfix (demo_env []) (handle_on 3 LATCH_NL) demo_pool0 = Some (handle_on 3 LATCH_NL, demo_pool0) \<and>
   mode (handle_on 3 LATCH_NL) = LATCH_NL \<and>
   pp (handle_on 3 LATCH_NL) = Some 3"
  by (simp add: unfix_def handle_on_def)


lemma fix_direct_swizzled:
  assumes "is_swizzled_pointer shpid" and "unfix env h bf = Some (h1, bf1)"
  shows "fix_direct env h vol shpid m conditional virgin_page bf =
           Some (RC (if m = LATCH_Q then eLATCHQFAIL else eBF_DIRECTFIX_SWIZZLED_PTR), h1, bf1)"
proof -
  have "shpid \<noteq> 0"
    using assms(1) by (auto simp: is_swizzled_pointer_def)
  with assms show ?thesis
    by (simp add: fix_direct_def bf_tree_m_fix_direct_def)
qed

lemma fix_direct_success:
  assumes "fix_direct env h vol shpid m conditional virgin_page bf = Some (RCOK, h', bf')"
  shows "mode h' = m \<and> m \<noteq> LATCH_Q \<and>
         pid_vol (bf_get_cb env bf' (pp h')) = vol \<and>
         pid_shpid (bf_get_cb env bf' (pp h')) = shpid"
  using assms
  by (auto simp: fix_direct_def Let_def split: if_splits option.splits prod.splits)

lemma fix_direct_proceeds:
  assumes "\<not> is_swizzled_pointer shpid" and "shpid \<noteq> 0" and "m \<noteq> LATCH_Q"
    and "unfix env h bf = Some (h1, bf1)"
    and "fix_direct env h vol shpid m conditional virgin_page bf = Some (rc, h', bf')"
  shows "(rc, pp h', bf') = bf_fix_nonswizzled env None (pp h1) vol shpid m conditional virgin_page bf1"
  using assms
  by (auto simp: fix_direct_def bf_tree_m_fix_direct_def Let_def split: if_splits option.splits prod.splits)

text \<open>
  C3, amended.  After the handle's \<open>unfix\<close>, for every \<open>shpid\<close> whose swizzle bit is
  set \<open>fix_direct\<close> fixes no page (the handle and the pool stay as \<open>unfix\<close> left them,
  the mode \<open>LATCH_NL\<close>) and returns \<open>eBF_DIRECTFIX_SWIZZLED_PTR\<close> for every mode other than
  \<open>LATCH_Q\<close>; in mode \<open>LATCH_Q\<close> it returns \<open>eLATCHQFAIL\<close>.  For a non-swizzled, nonzero
  \<open>shpid\<close> and a mode other than \<open>LATCH_Q\<close> it proceeds to the fix without a parent and
  passes its result on; on success the handle has the requested mode and the control
  block of its page carries exactly the requested volume id and page id.
\<close>

theorem fix_direct_rejects_swizzled:
  assumes "unfix env h bf = Some (h1, bf1)"
  shows "(is_swizzled_pointer shpid \<longrightarrow>
            fix_direct env h vol shpid m conditional virgin_page bf =
              Some (RC (if m = LATCH_Q then eLATCHQFAIL else eBF_DIRECTFIX_SWIZZLED_PTR), h1, bf1) \<and>
            mode h1 = LATCH_NL) \<and>
         (\<not> is_swizzled_pointer shpid \<and> shpid \<noteq> 0 \<and> m \<noteq> LATCH_Q \<longrightarrow>
            (\<forall>rc h' bf'. fix_direct env h vol shpid m conditional virgin_page bf = Some (rc, h', bf') \<longrightarrow>
               (rc, pp h', bf') =
                 bf_fix_nonswizzled env None (pp h1) vol shpid m conditional virgin_page bf1 \<and>
               (rc = RCOK \<longrightarrow> mode h' = m \<and> 
                  pid_vol (bf_get_cb env bf' (pp h')) = vol \<and>
                  pid_shpid (bf_get_cb env bf' (pp h')) = shpid)))"
proof (intro conjI impI allI)
  assume "is_swizzled_pointer shpid"
  then show "fix_direct env h vol shpid m conditional virgin_page bf =
      Some (RC (if m = LATCH_Q then eLATCHQFAIL else eBF_DIRECTFIX_SWIZZLED_PTR), h1, bf1)"
    by (rule fix_direct_swizzled [OF _ assms])
next
  show "mode h1 = LATCH_NL"
    by (rule unfix_result(1) [OF assms])
next
  fix rc h' bf'
  assume pre: "\<not> is_swizzled_pointer shpid \<and> shpid \<noteq> 0 \<and> m \<noteq> LATCH_Q"
    and ret: "fix_direct env h vol shpid m conditional virgin_page bf = Some (rc, h', bf')"
  from pre ret show "(rc, pp h', bf') =
      bf_fix_nonswizzled env None (pp h1) vol shpid m conditional virgin_page bf1"
    by (intro fix_direct_proceeds [OF _ _ _ assms]) simp_all
  assume ok: "rc = RCOK"
  from fix_direct_success [OF ret [unfolded ok]]
  show "mode h' = m" 
    and "pid_vol (bf_get_cb env bf' (pp h')) = vol"
    and "pid_shpid (bf_get_cb env bf' (pp h')) = shpid"
    by simp_all
qed

theorem fix_direct_rejects_swizzled_witness:
  "unfix (demo_env []) unfixed_handle demo_pool0 = Some (unfixed_handle, demo_pool0) \<and>
   is_swizzled_pointer 0x80000002 \<and>
   fix_direct (demo_env []) unfixed_handle 1 0x80000002 LATCH_SH False False demo_pool0
     = Some (RC eBF_DIRECTFIX_SWIZZLED_PTR, unfixed_handle, demo_pool0) \<and>
   mode unfixed_handle = LATCH_NL \<and>
   \<not> is_swizzled_pointer 2 \<and> (2 :: shpid_t) \<noteq> 0 \<and> LATCH_SH \<noteq> LATCH_Q \<and>
   fix_direct (demo_env []) unfixed_handle 1 2 LATCH_SH False False demo_pool0
     = Some (RCOK, handle_on 2 LATCH_SH, demo_pool0\<lparr>latches := [2]\<rparr>) \<and>
   mode (handle_on 2 LATCH_SH) = LATCH_SH \<and>
   pid_vol (bf_get_cb (demo_env []) (demo_pool0\<lparr>latches := [2]\<rparr>) (pp (handle_on 2 LATCH_SH))) = 1 \<and>
   pid_shpid (bf_get_cb (demo_env []) (demo_pool0\<lparr>latches := [2]\<rparr>) (pp (handle_on 2 LATCH_SH))) = 2"
proof -
  have u: "unfix (demo_env []) unfixed_handle demo_pool0 = Some (unfixed_handle, demo_pool0)"
    by (simp add: unfix_def unfixed_handle_def)
  have s: "is_swizzled_pointer 0x80000002" and n: "\<not> is_swizzled_pointer 2"
    by (simp_all add: is_swizzled_pointer_def SWIZZLED_PID_BIT_def)
  have ev: "fix_direct (demo_env []) unfixed_handle 1 2 LATCH_SH False False demo_pool0
      = Some (RCOK, handle_on 2 LATCH_SH, demo_pool0\<lparr>latches := [2]\<rparr>)"
    by (simp add: fix_direct_def bf_tree_m_fix_direct_def unfix_def unfixed_handle_def
        is_swizzled_pointer_def SWIZZLED_PID_BIT_def demo_env_def handle_on_def frame_of_def
        writer_step_def demo_pool0_def)
  from fix_direct_rejects_swizzled [OF u, of "0x80000002" 1 LATCH_SH False False] s
  have r1: "fix_direct (demo_env []) unfixed_handle 1 0x80000002 LATCH_SH False False demo_pool0
     = Some (RC eBF_DIRECTFIX_SWIZZLED_PTR, unfixed_handle, demo_pool0)"
    and m1: "mode unfixed_handle = LATCH_NL"
    by simp_all
  from fix_direct_rejects_swizzled [OF u, of 2 1 LATCH_SH False False] n
  have "\<forall>rc h' bf'. fix_direct (demo_env []) unfixed_handle 1 2 LATCH_SH False False demo_pool0 = Some (rc, h', bf') \<longrightarrow>
      (rc = RCOK \<longrightarrow> mode h' = LATCH_SH \<and>
                  pid_vol (bf_get_cb (demo_env []) bf' (pp h')) = 1 \<and>
                  pid_shpid (bf_get_cb (demo_env []) bf' (pp h')) = 2)"
    by simp
  with ev have r2: "mode (handle_on 2 LATCH_SH) = LATCH_SH \<and>
      pid_vol (bf_get_cb (demo_env []) (demo_pool0\<lparr>latches := [2]\<rparr>) (pp (handle_on 2 LATCH_SH))) = 1 \<and>
      pid_shpid (bf_get_cb (demo_env []) (demo_pool0\<lparr>latches := [2]\<rparr>) (pp (handle_on 2 LATCH_SH))) = 2"
    by blast
  from u s r1 m1 n ev r2 show ?thesis
    by simp
qed

text \<open>
  C3.  As stated for every swizzled \<open>shpid\<close>, the claim fails in mode \<open>LATCH_Q\<close>:
  \<open>fix_direct\<close> returns \<open>eLATCHQFAIL\<close> before the pool sees the pointer.
\<close>

theorem fix_direct_Q_counterexample:
  "is_swizzled_pointer 0x80000002 \<and>
   fix_direct (demo_env []) unfixed_handle 1 0x80000002 LATCH_Q False False demo_pool0
     = Some (RC eLATCHQFAIL, unfixed_handle, demo_pool0) \<and>
   RC eLATCHQFAIL \<noteq> RC eBF_DIRECTFIX_SWIZZLED_PTR"
  by (simp add: fix_direct_def unfix_def unfixed_handle_def is_swizzled_pointer_def
      SWIZZLED_PID_BIT_def)

lemma fix_nonroot_crabbing_cases:
  "fix_nonroot_crabbing env h parent m bf =
     (if latch_mode env parent = LATCH_Q \<and> \<not> is_fixed env parent then None
      else Some (RCOK, h\<lparr>mode := m\<rparr>, bf))"
  by (simp add: fix_nonroot_crabbing_def change_possible_after_fix_def Let_def)

lemma fix_nonroot_Q_path:
  assumes "shpid \<noteq> 0" and "unfix env h bf = Some (h1, bf1)"
    and "forced_mode env mode0 = LATCH_Q \<or> latch_mode env parent = LATCH_Q"
  shows "fix_nonroot env h parent vol shpid mode0 conditional virgin_page bf =
     (if virgin_page \<or> \<not> is_swizzled_pointer shpid then Some (RC eLATCHQFAIL, h1, bf1)
      else case bf_fix_with_Q_nonroot env (pp h1) vol shpid (Q_ticket h1) bf1 of
        (rc, page, ticket, bf2) \<Rightarrow>
          if rc \<noteq> RCOK then Some (rc, h1\<lparr>pp := page, Q_ticket := ticket\<rparr>, bf2)
          else if forced_mode env mode0 \<noteq> LATCH_Q
            then Some (RC ePARENTLATCHQFAIL, h1\<lparr>pp := None, Q_ticket := ticket\<rparr>, bf2)
          else if latch_mode env parent = LATCH_Q \<and> \<not> is_fixed env parent then None
          else Some (RCOK, h1\<lparr>pp := page, Q_ticket := ticket, mode := LATCH_Q\<rparr>, bf2))"
  using assms
  by (auto simp: fix_nonroot_def fix_nonroot_crabbing_cases Let_def split: prod.splits)

lemma fix_nonroot_plain_path:
  assumes "shpid \<noteq> 0" and "unfix env h bf = Some (h1, bf1)"
    and "\<not> (forced_mode env mode0 = LATCH_Q \<or> latch_mode env parent = LATCH_Q)"
  shows "fix_nonroot env h parent vol shpid mode0 conditional virgin_page bf =
     (case bf_fix_nonroot env (pp h1) (pp parent) vol shpid (forced_mode env mode0)
             conditional virgin_page bf1 of
        (rc, page, bf2) \<Rightarrow>
          if rc \<noteq> RCOK then Some (rc, h1\<lparr>pp := page\<rparr>, bf2)
          else if pid_vol (bf_get_cb env bf2 page) \<noteq> vol then None
          else if \<not> (is_swizzled_pointer shpid \<or> pid_shpid (bf_get_cb env bf2 page) = shpid)
            then None
          else Some (RCOK, h1\<lparr>pp := page, mode := forced_mode env mode0\<rparr>, bf2))"
  using assms
  by (auto simp: fix_nonroot_def fix_nonroot_crabbing_cases Let_def split: prod.splits)

text \<open>
  C4, amended.  On a call with a nonzero \<open>shpid\<close>, after the handle's \<open>unfix\<close>:
  \<open>fix_nonroot\<close> returns \<open>eLATCHQFAIL\<close> when and only when the fix is attempted in Q mode
  (requested, or forced from \<open>LATCH_SH\<close>) or the parent is latched in Q mode, and the
  target is a virgin page or not a swizzled pointer, or else the buffer pool's own fix
  returns \<open>eLATCHQFAIL\<close>, which \<open>fix_nonroot\<close> passes on.  The Q ticket is never tested.
  In the first case the handle is as \<open>unfix\<close> left it, with mode \<open>LATCH_NL\<close> and no page
  unless it entered in mode \<open>LATCH_NL\<close> holding one.
\<close>

theorem fix_nonroot_LatchQFail:
  assumes "shpid \<noteq> 0" and "unfix env h bf = Some (h1, bf1)"
  shows "((\<exists>h' bf'. fix_nonroot env h parent vol shpid mode0 conditional virgin_page bf =
              Some (RC eLATCHQFAIL, h', bf')) \<longleftrightarrow>
            (forced_mode env mode0 = LATCH_Q \<or> latch_mode env parent = LATCH_Q) \<and>
              (virgin_page \<or> \<not> is_swizzled_pointer shpid) \<or>
            (forced_mode env mode0 = LATCH_Q \<or> latch_mode env parent = LATCH_Q) \<and>
              \<not> virgin_page \<and> is_swizzled_pointer shpid \<and>
              fst (bf_fix_with_Q_nonroot env (pp h1) vol shpid (Q_ticket h1) bf1) = RC eLATCHQFAIL \<or>
            \<not> (forced_mode env mode0 = LATCH_Q \<or> latch_mode env parent = LATCH_Q) \<and>
              fst (bf_fix_nonroot env (pp h1) (pp parent) vol shpid (forced_mode env mode0)
                     conditional virgin_page bf1) = RC eLATCHQFAIL) \<and>
         ((forced_mode env mode0 = LATCH_Q \<or> latch_mode env parent = LATCH_Q) \<and>
          (virgin_page \<or> \<not> is_swizzled_pointer shpid) \<longrightarrow>
            fix_nonroot env h parent vol shpid mode0 conditional virgin_page bf =
              Some (RC eLATCHQFAIL, h1, bf1) \<and>
            mode h1 = LATCH_NL \<and> pp h1 = (if mode h = LATCH_NL then pp h else None))"
proof (cases "forced_mode env mode0 = LATCH_Q \<or> latch_mode env parent = LATCH_Q")
  case True
  show ?thesis
    using True unfix_result(1,2) [OF assms(2)]
    by (auto simp: fix_nonroot_Q_path [OF assms True] split: prod.splits if_splits)
next
  case False
  show ?thesis
    using False
    by (auto simp: fix_nonroot_plain_path [OF assms False] split: prod.splits if_splits)
qed

text \<open>
  C2, amended.  When \<open>fix_nonroot\<close> is performed while the parent handle is held in Q
  mode, the check made after the child fix never reports a change
  (\<open>change_possible_after_fix\<close> answers false), so a writer on the parent is not detected.
  Once the Q fix of a swizzled, non-virgin pointer has succeeded, the mode of the fix
  alone decides, which is the requested mode, or \<open>LATCH_Q\<close> when \<open>LATCH_SH\<close> is requested
  and \<open>force_Q_fixing\<close> is above 1: if it is \<open>LATCH_Q\<close> the page is fixed in Q mode and
  the call succeeds; otherwise the call returns \<open>ePARENTLATCHQFAIL\<close> with no page in the
  handle.  Apart from that, \<open>ePARENTLATCHQFAIL\<close> is returned only if the buffer pool's Q
  fix returns it.
\<close>

theorem fix_nonroot_parent_Q:
  assumes "latch_mode env parent = LATCH_Q" and "is_fixed env parent"
    and "shpid \<noteq> 0" and "unfix env h bf = Some (h1, bf1)"
  shows "change_possible_after_fix env parent = Some False \<and>
         (\<forall>page ticket bf2.
            is_swizzled_pointer shpid \<and> \<not> virgin_page \<and>
            bf_fix_with_Q_nonroot env (pp h1) vol shpid (Q_ticket h1) bf1 = (RCOK, page, ticket, bf2) \<longrightarrow>
              fix_nonroot env h parent vol shpid mode0 conditional virgin_page bf =
                Some (if forced_mode env mode0 = LATCH_Q
                      then (RCOK, h1\<lparr>pp := page, Q_ticket := ticket, mode := LATCH_Q\<rparr>, bf2)
                      else (RC ePARENTLATCHQFAIL, h1\<lparr>pp := None, Q_ticket := ticket\<rparr>, bf2))) \<and>
         (\<forall>h' bf'. fix_nonroot env h parent vol shpid mode0 conditional virgin_page bf =
              Some (RC ePARENTLATCHQFAIL, h', bf') \<longrightarrow>
            is_swizzled_pointer shpid \<and> \<not> virgin_page \<and>
            (fst (bf_fix_with_Q_nonroot env (pp h1) vol shpid (Q_ticket h1) bf1) = RCOK \<and>
               forced_mode env mode0 \<noteq> LATCH_Q \<and> pp h' = None \<and> mode h' = LATCH_NL \<or>
             fst (bf_fix_with_Q_nonroot env (pp h1) vol shpid (Q_ticket h1) bf1)
               = RC ePARENTLATCHQFAIL))"
proof -
  have q: "forced_mode env mode0 = LATCH_Q \<or> latch_mode env parent = LATCH_Q"
    using assms(1) by simp
  show ?thesis
    using assms(1,2) unfix_result(1) [OF assms(4)]
    by (auto simp: fix_nonroot_Q_path [OF assms(3,4) q] change_possible_after_fix_def
        split: prod.splits if_splits)
qed


lemma demo_unfix_unfixed:
  "unfix (demo_env ws) unfixed_handle demo_pool0 = Some (unfixed_handle, demo_pool0)"
  by (simp add: unfix_def unfixed_handle_def)

lemma demo_forced_mode: "forced_mode (demo_env ws) m = m"
  by (simp add: forced_mode_def demo_env_def)

lemma demo_latch_mode: "latch_mode (demo_env ws) (handle_on p m) = m"
  by (simp add: demo_env_def handle_on_def)

lemma demo_is_fixed: "is_fixed (demo_env ws) (handle_on p m)"
  by (simp add: demo_env_def handle_on_def)

lemma demo_swizzled: "is_swizzled_pointer 0x80000002" "\<not> is_swizzled_pointer 2"
  by (simp_all add: is_swizzled_pointer_def SWIZZLED_PID_BIT_def)

lemma demo_frame_of: "frame_of 0x80000002 = 2"
  by (simp add: frame_of_def SWIZZLED_PID_BIT_def)

lemma demo_Q_fix:
  "bf_fix_with_Q_nonroot (demo_env ws) page vol 0x80000002 ticket demo_pool0 =
     (RCOK, Some 2, 0, writer_step ws demo_pool0)"
  by (simp add: demo_env_def demo_frame_of) (simp add: demo_pool0_def)

theorem fix_nonroot_LatchQFail_witness:
  "(2 :: shpid_t) \<noteq> 0 \<and>
   unfix (demo_env []) unfixed_handle demo_pool0 = Some (unfixed_handle, demo_pool0) \<and>
   forced_mode (demo_env []) LATCH_Q = LATCH_Q \<and> \<not> is_swizzled_pointer 2 \<and>
   fix_nonroot (demo_env []) unfixed_handle (handle_on 3 LATCH_SH) 1 2 LATCH_Q False False demo_pool0
     = Some (RC eLATCHQFAIL, unfixed_handle, demo_pool0) \<and>
   mode unfixed_handle = LATCH_NL \<and> pp unfixed_handle = None"
proof -
  have z: "(2 :: shpid_t) \<noteq> 0"
    by simp
  note u = demo_unfix_unfixed [of "[]"]
  from fix_nonroot_LatchQFail [OF z u, where ?mode0.0 = LATCH_Q and parent = "handle_on 3 LATCH_SH" and virgin_page = False and vol = 1 and conditional = False]
    demo_forced_mode [of "[]" LATCH_Q] demo_swizzled(2)
  have "fix_nonroot (demo_env []) unfixed_handle (handle_on 3 LATCH_SH) 1 2 LATCH_Q False False demo_pool0
     = Some (RC eLATCHQFAIL, unfixed_handle, demo_pool0)"
    by simp
  with z u demo_forced_mode [of "[]" LATCH_Q] demo_swizzled(2) show ?thesis
    by (simp add: unfixed_handle_def)
qed

text \<open>
  C4.  As stated, an invalid Q ticket makes \<open>fix_nonroot\<close> return \<open>eLATCHQFAIL\<close>.  Here
  a writer takes the exclusive latch of frame 2 while it is being fixed in Q mode, so the
  ticket obtained is invalid, and \<open>fix_nonroot\<close> returns \<open>RCOK\<close>.
\<close>

theorem fix_nonroot_ticket_counterexample:
  "fix_nonroot (demo_env [2]) unfixed_handle (handle_on 3 LATCH_SH) 1 0x80000002 LATCH_Q False False
     demo_pool0 = Some (RCOK, handle_on 2 LATCH_Q, writer_step [2] demo_pool0) \<and>
   \<not> q_ticket_valid (demo_env [2]) (writer_step [2] demo_pool0)
       (pp (handle_on 2 LATCH_Q)) (Q_ticket (handle_on 2 LATCH_Q))"
proof -
  have z: "(0x80000002 :: shpid_t) \<noteq> 0"
    by simp
  have q: "forced_mode (demo_env [2]) LATCH_Q = LATCH_Q \<or>
      latch_mode (demo_env [2]) (handle_on 3 LATCH_SH) = LATCH_Q"
    by (simp add: demo_forced_mode)
  have "fix_nonroot (demo_env [2]) unfixed_handle (handle_on 3 LATCH_SH) 1 0x80000002 LATCH_Q False False
     demo_pool0 = Some (RCOK, handle_on 2 LATCH_Q, writer_step [2] demo_pool0)"
    by (simp add: fix_nonroot_Q_path [OF z demo_unfix_unfixed q] demo_swizzled demo_Q_fix
        demo_forced_mode demo_latch_mode) (simp add: unfixed_handle_def handle_on_def)
  moreover have "\<not> q_ticket_valid (demo_env [2]) (writer_step [2] demo_pool0)
       (pp (handle_on 2 LATCH_Q)) (Q_ticket (handle_on 2 LATCH_Q))"
    by (simp add: q_ticket_valid_def handle_on_def demo_env_def writer_step_def demo_pool0_def)
  ultimately show ?thesis
    by simp
qed

text \<open>
  C2.  As stated, a writer on the parent between the parent's Q ticket and the end of
  the child fix makes \<open>fix_nonroot\<close> return \<open>ePARENTLATCHQFAIL\<close>.  Here the parent holds
  frame 3 in Q mode with a valid ticket, a writer takes the exclusive latch of frame 3
  during the child fix, and \<open>fix_nonroot\<close> returns \<open>RCOK\<close> with the child fixed.
\<close>

theorem fix_nonroot_parent_Q_counterexample:
  "latch_mode (demo_env [3]) (handle_on 3 LATCH_Q) = LATCH_Q \<and>
   q_ticket_valid (demo_env [3]) demo_pool0
       (pp (handle_on 3 LATCH_Q)) (Q_ticket (handle_on 3 LATCH_Q)) \<and>
   fix_nonroot (demo_env [3]) unfixed_handle (handle_on 3 LATCH_Q) 1 0x80000002 LATCH_Q False False
     demo_pool0 = Some (RCOK, handle_on 2 LATCH_Q, writer_step [3] demo_pool0) \<and>
   \<not> q_ticket_valid (demo_env [3]) (writer_step [3] demo_pool0)
       (pp (handle_on 3 LATCH_Q)) (Q_ticket (handle_on 3 LATCH_Q))"
proof -
  have z: "(0x80000002 :: shpid_t) \<noteq> 0"
    by simp
  have q: "forced_mode (demo_env [3]) LATCH_Q = LATCH_Q \<or>
      latch_mode (demo_env [3]) (handle_on 3 LATCH_Q) = LATCH_Q"
    by (simp add: demo_forced_mode)
  have "fix_nonroot (demo_env [3]) unfixed_handle (handle_on 3 LATCH_Q) 1 0x80000002 LATCH_Q False False
     demo_pool0 = Some (RCOK, handle_on 2 LATCH_Q, writer_step [3] demo_pool0)"
    by (simp add: fix_nonroot_Q_path [OF z demo_unfix_unfixed q] demo_swizzled demo_Q_fix
        demo_forced_mode demo_latch_mode demo_is_fixed) (simp add: unfixed_handle_def handle_on_def)
  moreover have "\<not> q_ticket_valid (demo_env [3]) (writer_step [3] demo_pool0)
       (pp (handle_on 3 LATCH_Q)) (Q_ticket (handle_on 3 LATCH_Q))"
    and "q_ticket_valid (demo_env [3]) demo_pool0
       (pp (handle_on 3 LATCH_Q)) (Q_ticket (handle_on 3 LATCH_Q))"
    by (simp_all add: q_ticket_valid_def handle_on_def demo_env_def writer_step_def demo_pool0_def)
  ultimately show ?thesis
    by (simp add: demo_latch_mode)
qed

lemma forced_demo:
  "latch_mode ((demo_env [])\<lparr>force_Q_fixing := 2\<rparr>) (handle_on 3 LATCH_Q) = LATCH_Q"
  "is_fixed ((demo_env [])\<lparr>force_Q_fixing := 2\<rparr>) (handle_on 3 LATCH_Q)"
  "forced_mode ((demo_env [])\<lparr>force_Q_fixing := 2\<rparr>) LATCH_SH = LATCH_Q"
  "unfix ((demo_env [])\<lparr>force_Q_fixing := 2\<rparr>) unfixed_handle demo_pool0
     = Some (unfixed_handle, demo_pool0)"
  "bf_fix_with_Q_nonroot ((demo_env [])\<lparr>force_Q_fixing := 2\<rparr>) (pp unfixed_handle) 1 0x80000002
     (Q_ticket unfixed_handle) demo_pool0 = (RCOK, Some 2, 0, writer_step [] demo_pool0)"
  by (simp_all add: demo_env_def handle_on_def forced_mode_def unfix_def unfixed_handle_def
      demo_frame_of) (simp add: demo_pool0_def)

theorem fix_nonroot_parent_Q_witness:
  "latch_mode (demo_env []) (handle_on 3 LATCH_Q) = LATCH_Q \<and>
   is_fixed (demo_env []) (handle_on 3 LATCH_Q) \<and> (0x80000002 :: shpid_t) \<noteq> 0 \<and>
   unfix (demo_env []) unfixed_handle demo_pool0 = Some (unfixed_handle, demo_pool0) \<and>
   is_swizzled_pointer 0x80000002 \<and>
   bf_fix_with_Q_nonroot (demo_env []) (pp unfixed_handle) 1 0x80000002 (Q_ticket unfixed_handle)
     demo_pool0 = (RCOK, Some 2, 0, writer_step [] demo_pool0) \<and>
   change_possible_after_fix (demo_env []) (handle_on 3 LATCH_Q) = Some False \<and>
   fix_nonroot (demo_env []) unfixed_handle (handle_on 3 LATCH_Q) 1 0x80000002 LATCH_SH False False
     demo_pool0
     = Some (RC ePARENTLATCHQFAIL, unfixed_handle\<lparr>pp := None, Q_ticket := 0\<rparr>,
             writer_step [] demo_pool0) \<and>
   fix_nonroot (demo_env []) unfixed_handle (handle_on 3 LATCH_Q) 1 0x80000002 LATCH_Q False False
     demo_pool0
     = Some (RCOK, unfixed_handle\<lparr>pp := Some 2, Q_ticket := 0, mode := LATCH_Q\<rparr>,
             writer_step [] demo_pool0) \<and>
   forced_mode ((demo_env [])\<lparr>force_Q_fixing := 2\<rparr>) LATCH_SH = LATCH_Q \<and>
   fix_nonroot ((demo_env [])\<lparr>force_Q_fixing := 2\<rparr>) unfixed_handle (handle_on 3 LATCH_Q) 1
     0x80000002 LATCH_SH False False demo_pool0
     = Some (RCOK, unfixed_handle\<lparr>pp := Some 2, Q_ticket := 0, mode := LATCH_Q\<rparr>,
             writer_step [] demo_pool0)"
proof -
  have z: "(0x80000002 :: shpid_t) \<noteq> 0"
    by simp
  have d: "fix_nonroot ((demo_env [])\<lparr>force_Q_fixing := 2\<rparr>) unfixed_handle (handle_on 3 LATCH_Q) 1
     0x80000002 LATCH_SH False False demo_pool0
     = Some (RCOK, unfixed_handle\<lparr>pp := Some 2, Q_ticket := 0, mode := LATCH_Q\<rparr>,
             writer_step [] demo_pool0)"
    using fix_nonroot_parent_Q [OF forced_demo(1,2) z forced_demo(4),
        where ?mode0.0 = LATCH_SH and vol = 1 and virgin_page = False and conditional = False]
      demo_swizzled(1) forced_demo(5)
    by (simp add: forced_demo(3))
  note l = demo_latch_mode [of "[]" 3 LATCH_Q]
  note f = demo_is_fixed [of "[]" 3 LATCH_Q]
  note u = demo_unfix_unfixed [of "[]"]
  note qf = demo_Q_fix [of "[]" "pp unfixed_handle" 1 "Q_ticket unfixed_handle"]
  note t = fix_nonroot_parent_Q [OF l f z u]
  have c: "change_possible_after_fix (demo_env []) (handle_on 3 LATCH_Q) = Some False"
    using t [where ?mode0.0 = LATCH_Q and vol = 1 and virgin_page = False and conditional = False] by blast
  have a: "fix_nonroot (demo_env []) unfixed_handle (handle_on 3 LATCH_Q) 1 0x80000002 LATCH_SH
      False False demo_pool0
     = Some (RC ePARENTLATCHQFAIL, unfixed_handle\<lparr>pp := None, Q_ticket := 0\<rparr>,
             writer_step [] demo_pool0)"
    using t [where ?mode0.0 = LATCH_SH and vol = 1 and virgin_page = False and conditional = False] demo_swizzled(1) qf
    by (simp add: demo_forced_mode)
  have b: "fix_nonroot (demo_env []) unfixed_handle (handle_on 3 LATCH_Q) 1 0x80000002 LATCH_Q
      False False demo_pool0
     = Some (RCOK, unfixed_handle\<lparr>pp := Some 2, Q_ticket := 0, mode := LATCH_Q\<rparr>,
             writer_step [] demo_pool0)"
    using t [where ?mode0.0 = LATCH_Q and vol = 1 and virgin_page = False and conditional = False] demo_swizzled(1) qf
    by (simp add: demo_forced_mode)
  from l f z u demo_swizzled(1) qf c a b forced_demo(3) d show ?thesis
    by simp
qed


section \<open>Facts about the to-be-deleted flag\<close>

lemma flag_clear_iff:
  fixes w :: "'f::len word"
  shows "w AND push_bit k 1 = 0 \<longleftrightarrow> \<not> bit w k"
  using bit_iff_and_push_bit_not_eq_0 [of w k] by blast

lemma xor_flag_sets:
  fixes w :: "'f::len word"
  assumes "\<not> bit w k"
  shows "w XOR push_bit k 1 = set_bit k w"
  using assms by (intro bit_word_eqI) (auto simp: bit_simps)

lemma xor_flag_clears:
  fixes w :: "'f::len word"
  assumes "bit w k"
  shows "w XOR push_bit k 1 = unset_bit k w"
  using assms by (intro bit_word_eqI) (auto simp: bit_simps)

lemma unset_clear_flag:
  fixes w :: "'f::len word"
  assumes "\<not> bit w k"
  shows "unset_bit k w = w"
  using assms by (intro bit_word_eqI) (auto simp: bit_simps)

lemma unset_set_flag:
  fixes w :: "'f::len word"
  shows "unset_bit k (set_bit k w) = unset_bit k w"
  by (intro bit_word_eqI) (auto simp: bit_simps)

lemma set_to_be_deleted_already:
  fixes env :: "('bf, 'vol, 'f::len word) sm_env"
  assumes "is_latched env h" and "pp h = Some p"
    and "t_to_be_deleted env = push_bit k 1" and "bit (page_flags (mem p)) k"
  shows "set_to_be_deleted env log_it h mem bf = Some (RCOK, mem, bf)"
  using assms by (simp add: set_to_be_deleted_def flag_clear_iff del: push_bit_of_1)

lemma set_to_be_deleted_clear:
  fixes env :: "('bf, 'vol, 'f::len word) sm_env"
  assumes "is_latched env h" and "pp h = Some p" and "mode h \<noteq> LATCH_Q"
    and "t_to_be_deleted env = push_bit k 1" and "\<not> bit (page_flags (mem p)) k"
    and "(if log_it then log_page_set_to_be_deleted env h bf else (RCOK, bf)) = (rc, bf1)"
  shows "set_to_be_deleted env log_it h mem bf =
           Some (if rc \<noteq> RCOK then (rc, mem, bf1)
                 else (RCOK,
                       mem(p := (mem p)\<lparr>page_flags := set_bit k (page_flags (mem p))\<rparr>),
                       if mode h = LATCH_NL then bf1 else bf_set_dirty env p bf1))"
proof -
  have x: "page_flags (mem p) XOR push_bit k 1 = set_bit k (page_flags (mem p))"
    by (rule xor_flag_sets [OF assms(5)])
  show ?thesis
    unfolding set_to_be_deleted_def assms(4)
    using assms(1,2,3,5,6)
    by (simp add: flag_clear_iff set_dirty_def Let_def x del: push_bit_of_1)
qed

lemma unset_to_be_deleted_result:
  fixes env :: "('bf, 'vol, 'f::len word) sm_env"
  assumes "is_latched env h" and "pp h = Some p" and "t_to_be_deleted env = push_bit k 1"
  shows "unset_to_be_deleted env h mem =
           Some (mem(p := (mem p)\<lparr>page_flags := unset_bit k (page_flags (mem p))\<rparr>))"
proof (cases "bit (page_flags (mem p)) k")
  case True
  have x: "page_flags (mem p) XOR push_bit k 1 = unset_bit k (page_flags (mem p))"
    by (rule xor_flag_clears [OF True])
  show ?thesis
    unfolding unset_to_be_deleted_def assms(3)
    using assms(1,2) True
    by (simp add: flag_clear_iff x del: push_bit_of_1)
next
  case False
  show ?thesis
    unfolding unset_to_be_deleted_def assms(3)
    using assms(1,2) False
    by (simp add: flag_clear_iff unset_clear_flag del: push_bit_of_1)
qed


lemma set_to_be_deleted_success:
  fixes env :: "('bf, 'vol, 'f::len word) sm_env"
  assumes lat: "is_latched env h" and pg: "pp h = Some p" and nq: "mode h \<noteq> LATCH_Q"
    and t: "t_to_be_deleted env = push_bit k 1" and k: "k < LENGTH('f)"
    and ok: "set_to_be_deleted env log_it h mem bf = Some (RCOK, mem', bf')"
  shows "bit (page_flags (mem' p)) k"
    and "mem' = mem(p := (mem p)\<lparr>page_flags := set_bit k (page_flags (mem p))\<rparr>)"
proof -
  show m: "mem' = mem(p := (mem p)\<lparr>page_flags := set_bit k (page_flags (mem p))\<rparr>)"
  proof (cases "bit (page_flags (mem p)) k")
    case True
    have "set_bit k (page_flags (mem p)) = page_flags (mem p)"
      using True by (intro bit_word_eqI) (auto simp: bit_simps)
    with ok set_to_be_deleted_already [where mem = mem, OF lat pg t True, of log_it bf] show ?thesis
      by simp
  next
    case False
    obtain rc bf1 where l:
      "(if log_it then log_page_set_to_be_deleted env h bf else (RCOK, bf)) = (rc, bf1)"
      by (cases "if log_it then log_page_set_to_be_deleted env h bf else (RCOK, bf)")
    from ok set_to_be_deleted_clear [where mem = mem, OF lat pg nq t False l] show ?thesis
      by (simp split: if_splits)
  qed
  show "bit (page_flags (mem' p)) k"
    unfolding m using k by (simp add: bit_simps)
qed

text \<open>
  C10, amended.  On a latched page, not held in Q mode, with \<open>t_to_be_deleted\<close> a single
  bit \<open>k\<close> of \<open>page_flags\<close>: when the flag is already set, \<open>set_to_be_deleted\<close> does
  nothing (no log record, no dirtying) and succeeds; when it is clear, the log record is
  written if asked for and, unless that fails, bit \<open>k\<close> is set and the page is marked
  dirty through the buffer pool.  After a success the flag is set and a second call
  changes nothing.  \<open>unset_to_be_deleted\<close> clears bit \<open>k\<close>.  Neither operation changes
  another bit of \<open>page_flags\<close> or another page.  \<open>unset_to_be_deleted\<close> after a
  successful \<open>set_to_be_deleted\<close> leaves the flag clear: that restores the original
  page when the flag was clear before.
\<close>

theorem to_be_deleted_flag:
  fixes env :: "('bf, 'vol, 'f::len word) sm_env"
  assumes lat: "is_latched env h" and pg: "pp h = Some p" and nq: "mode h \<noteq> LATCH_Q"
    and t: "t_to_be_deleted env = push_bit k 1" and k: "k < LENGTH('f)"
  shows "(bit (page_flags (mem p)) k \<longrightarrow>
            set_to_be_deleted env log_it h mem bf = Some (RCOK, mem, bf)) \<and>
         (\<not> bit (page_flags (mem p)) k \<longrightarrow>
            (\<forall>rc bf1.
               (if log_it then log_page_set_to_be_deleted env h bf else (RCOK, bf)) = (rc, bf1) \<longrightarrow>
               set_to_be_deleted env log_it h mem bf =
                 Some (if rc \<noteq> RCOK then (rc, mem, bf1)
                       else (RCOK,
                             mem(p := (mem p)\<lparr>page_flags := set_bit k (page_flags (mem p))\<rparr>),
                             if mode h = LATCH_NL then bf1 else bf_set_dirty env p bf1)))) \<and>
         (\<forall>mem' bf'.
            set_to_be_deleted env log_it h mem bf = Some (RCOK, mem', bf') \<longrightarrow>
              bit (page_flags (mem' p)) k \<and>
              set_to_be_deleted env log_it h mem' bf' = Some (RCOK, mem', bf') \<and>
              unset_to_be_deleted env h mem' =
                Some (mem(p := (mem p)\<lparr>page_flags := unset_bit k (page_flags (mem p))\<rparr>)) \<and>
              (\<not> bit (page_flags (mem p)) k \<longrightarrow> unset_to_be_deleted env h mem' = Some mem)) \<and>
         unset_to_be_deleted env h mem =
           Some (mem(p := (mem p)\<lparr>page_flags := unset_bit k (page_flags (mem p))\<rparr>))"
proof (intro conjI impI allI)
  assume "bit (page_flags (mem p)) k"
  then show "set_to_be_deleted env log_it h mem bf = Some (RCOK, mem, bf)"
    by (rule set_to_be_deleted_already [where mem = mem, OF lat pg t])
next
  fix rc bf1
  assume "\<not> bit (page_flags (mem p)) k"
    and "(if log_it then log_page_set_to_be_deleted env h bf else (RCOK, bf)) = (rc, bf1)"
  then show "set_to_be_deleted env log_it h mem bf =
      Some (if rc \<noteq> RCOK then (rc, mem, bf1)
            else (RCOK,
                  mem(p := (mem p)\<lparr>page_flags := set_bit k (page_flags (mem p))\<rparr>),
                  if mode h = LATCH_NL then bf1 else bf_set_dirty env p bf1))"
    by (rule set_to_be_deleted_clear [where mem = mem, OF lat pg nq t])
next
  show "unset_to_be_deleted env h mem =
      Some (mem(p := (mem p)\<lparr>page_flags := unset_bit k (page_flags (mem p))\<rparr>))"
    by (rule unset_to_be_deleted_result [OF lat pg t])
next
  fix mem' bf'
  assume ok: "set_to_be_deleted env log_it h mem bf = Some (RCOK, mem', bf')"
  note s = set_to_be_deleted_success [OF lat pg nq t k ok]
  show "bit (page_flags (mem' p)) k"
    by (rule s(1))
  then show "set_to_be_deleted env log_it h mem' bf' = Some (RCOK, mem', bf')"
    by (rule set_to_be_deleted_already [where mem = mem', OF lat pg t])
  show u: "unset_to_be_deleted env h mem' =
      Some (mem(p := (mem p)\<lparr>page_flags := unset_bit k (page_flags (mem p))\<rparr>))"
    unfolding unset_to_be_deleted_result [OF lat pg t] s(2)
    by (simp add: unset_set_flag)
  assume "\<not> bit (page_flags (mem p)) k"
  then show "unset_to_be_deleted env h mem' = Some mem"
    unfolding u by (simp add: unset_clear_flag)
qed

lemma demo_flag_handle:
  "is_latched (demo_env []) (handle_on 3 LATCH_EX)"
  "pp (handle_on 3 LATCH_EX) = Some 3"
  "mode (handle_on 3 LATCH_EX) \<noteq> LATCH_Q"
  "t_to_be_deleted (demo_env []) = push_bit 0 1"
  by (simp_all add: demo_env_def handle_on_def)

theorem to_be_deleted_flag_witness:
  "is_latched (demo_env []) (handle_on 3 LATCH_EX) \<and>
   pp (handle_on 3 LATCH_EX) = Some 3 \<and>
   mode (handle_on 3 LATCH_EX) \<noteq> LATCH_Q \<and>
   t_to_be_deleted (demo_env []) = push_bit 0 1 \<and> 0 < LENGTH(16) \<and>
   \<not> bit (page_flags (demo_memory 0 3)) 0 \<and>
   set_to_be_deleted (demo_env []) True (handle_on 3 LATCH_EX) (demo_memory 0) demo_pool0 =
     Some (RCOK, (demo_memory 0)(3 := \<lparr>page_flags = 1\<rparr>),
           \<lparr>latches = [], dirty_frames = [3], versions = (\<lambda>p. 0), log_records = Suc 0\<rparr>) \<and>
   unset_to_be_deleted (demo_env []) (handle_on 3 LATCH_EX)
     ((demo_memory 0)(3 := \<lparr>page_flags = 1\<rparr>)) = Some (demo_memory 0)"
proof -
  have k: "0 < LENGTH(16)"
    by simp
  have c: "\<not> bit (page_flags (demo_memory 0 3)) 0"
    by (simp add: demo_memory_def)
  have ev: "set_to_be_deleted (demo_env []) True (handle_on 3 LATCH_EX) (demo_memory 0) demo_pool0 =
     Some (RCOK, (demo_memory 0)(3 := \<lparr>page_flags = 1\<rparr>),
           \<lparr>latches = [], dirty_frames = [3], versions = (\<lambda>p. 0), log_records = Suc 0\<rparr>)"
    by (simp add: set_to_be_deleted_def set_dirty_def demo_env_def handle_on_def demo_memory_def
        demo_pool0_def)
  note t = to_be_deleted_flag [OF demo_flag_handle k,
      where mem = "demo_memory 0" and log_it = True and bf = demo_pool0]
  from t c ev have "unset_to_be_deleted (demo_env []) (handle_on 3 LATCH_EX)
     ((demo_memory 0)(3 := \<lparr>page_flags = 1\<rparr>)) = Some (demo_memory 0)"
    by blast
  with demo_flag_handle k c ev show ?thesis
    by simp
qed

text \<open>
  C10.  As stated, \<open>unset_to_be_deleted\<close> after \<open>set_to_be_deleted\<close> restores the original
  flag value.  On a page whose flag is already set, \<open>set_to_be_deleted\<close> changes nothing
  and \<open>unset_to_be_deleted\<close> then clears the flag, which was set at the start.
\<close>

theorem to_be_deleted_round_trip_counterexample:
  "is_to_be_deleted (demo_env []) (handle_on 3 LATCH_EX) (demo_memory 1) = Some True \<and>
   set_to_be_deleted (demo_env []) True (handle_on 3 LATCH_EX) (demo_memory 1) demo_pool0 =
     Some (RCOK, demo_memory 1, demo_pool0) \<and>
   unset_to_be_deleted (demo_env []) (handle_on 3 LATCH_EX) (demo_memory 1) =
     Some ((demo_memory 1)(3 := \<lparr>page_flags = 0\<rparr>)) \<and>
   is_to_be_deleted (demo_env []) (handle_on 3 LATCH_EX) ((demo_memory 1)(3 := \<lparr>page_flags = 0\<rparr>))
     = Some False"
  by (simp add: is_to_be_deleted_def set_to_be_deleted_def unset_to_be_deleted_def demo_env_def
      handle_on_def demo_memory_def)

end
